theory Spec2Isabelle
  imports Main "HOL-Library.Word" "HOL-Library.Monad_Syntax"
begin

unbundle bit_operations_syntax

section \<open>Machine types\<close>

text \<open>
  The engine's fixed-width integers (Common.h). A signed and an unsigned type of one
  width are the same bit vectors; the signed reading is \<open>sint\<close>, and the two differ in how
  a value is widened (\<open>scast\<close> sign-extends, \<open>ucast\<close> zero-extends) and shifted right
  (\<open>signed_drop_bit\<close> is the arithmetic shift, \<open>drop_bit\<close> the logical one). \<open>cint\<close> is the
  32-bit \<open>int\<close> every narrower operand is promoted to. A \<open>float\<close> is carried as its 32 bits,
  which is all that \<open>memcpy\<close> in the float encoder and decoder looks at. A \<open>char\<close> is its byte,
  and a \<open>std::string\<close> the list of its bytes.
\<close>

type_synonym uint8 = "8 word"
type_synonym uint16 = "16 word"
type_synonym uint32 = "32 word"
type_synonym uint64 = "64 word"
type_synonym int8 = "8 word"
type_synonym int16 = "16 word"
type_synonym int32 = "32 word"
type_synonym int64 = "64 word"
type_synonym cint = "32 word"
type_synonym std_string = "uint8 list"

datatype float = Float32 (float_bits: "32 word")

section \<open>ByteBuffer\<close>

text \<open>
  \<open>ByteBuffer\<close> wraps a \<open>std::vector<uint8>\<close>; the end of the list is the back of the vector.
  \<open>Pop\<close> on an empty buffer reads \<open>m_data.back()\<close> of an empty vector, which is outside the
  storage: the model returns \<open>None\<close> there, and \<open>None\<close> is also the result of every function
  that runs into such a read. \<open>Size\<close> is the number of bytes held (a vector of fewer than
  \<open>2 ^ 32\<close> bytes, so that the \<open>uint32\<close> it is returned in holds it).
\<close>

record ByteBuffer =
  m_data :: "uint8 list"

definition Size :: "ByteBuffer \<Rightarrow> nat" where
  "Size b = length (m_data b)"

definition Push :: "ByteBuffer \<Rightarrow> uint8 \<Rightarrow> ByteBuffer" where
  "Push b x = b\<lparr>m_data := m_data b @ [x]\<rparr>"

definition Pop :: "ByteBuffer \<Rightarrow> (uint8 \<times> ByteBuffer) option" where
  "Pop b = (if m_data b = [] then None
            else Some (last (m_data b), b\<lparr>m_data := butlast (m_data b)\<rparr>))"

text \<open>
  \<open>Data()\<close>, which the session passes to \<open>SendTo\<close> and which the header among the sources
  does not declare, is the address of the stored bytes: here the bytes themselves, in the
  order they were pushed.
\<close>

definition Data :: "ByteBuffer \<Rightarrow> uint8 list" where
  "Data b = m_data b"

text \<open>
  Modelled from the spec: \<open>ByteBuffer::Flip\<close>, which the session's receive path calls on
  every packet and whose body is not among the sources. The spec's glossary: "Flip:
  reversing a buffer's read order so sequentially-encoded fields can be decoded
  front-to-back".
\<close>

definition Flip :: "ByteBuffer \<Rightarrow> ByteBuffer" where
  "Flip b = b\<lparr>m_data := rev (m_data b)\<rparr>"

section \<open>Encoding of the primitive types (Encoding.h)\<close>

text \<open>
  \<open>data >> k * 8\<close> on an operand narrower than \<open>int\<close> is computed on the promoted \<open>int\<close>;
  the result is converted to the \<open>uint8\<close> that \<open>Push\<close> takes, which keeps the low byte.
  \<open>Pop() << k * 8\<close> shifts the popped byte as an \<open>int\<close>: a shift by 32 or more is undefined
  for the 32-bit \<open>int\<close> and is \<open>None\<close> in the model; a shift below 32 is taken in two's
  complement.
\<close>

definition shr_int :: "cint \<Rightarrow> nat \<Rightarrow> cint" where
  "shr_int x n = signed_drop_bit n x"

definition shl_int :: "cint \<Rightarrow> nat \<Rightarrow> cint option" where
  "shl_int x n = (if n < 32 then Some (push_bit n x) else None)"

definition Encode_int8 :: "ByteBuffer \<Rightarrow> int8 \<Rightarrow> ByteBuffer" where
  "Encode_int8 buffer data = Push buffer (ucast data)"

definition Encode_int16 :: "ByteBuffer \<Rightarrow> int16 \<Rightarrow> ByteBuffer" where
  "Encode_int16 buffer data =
     (let buffer = Push buffer (ucast (shr_int (scast data) (0 * 8)));
          buffer = Push buffer (ucast (shr_int (scast data) (1 * 8)))
      in buffer)"

definition Encode_int32 :: "ByteBuffer \<Rightarrow> int32 \<Rightarrow> ByteBuffer" where
  "Encode_int32 buffer data =
     (let buffer = Push buffer (ucast (shr_int data (0 * 8)));
          buffer = Push buffer (ucast (shr_int data (1 * 8)));
          buffer = Push buffer (ucast (shr_int data (2 * 8)));
          buffer = Push buffer (ucast (shr_int data (3 * 8)))
      in buffer)"

definition Encode_int64 :: "ByteBuffer \<Rightarrow> int64 \<Rightarrow> ByteBuffer" where
  "Encode_int64 buffer data =
     (let buffer = Push buffer (ucast (signed_drop_bit (0 * 8) data));
          buffer = Push buffer (ucast (signed_drop_bit (1 * 8) data));
          buffer = Push buffer (ucast (signed_drop_bit (2 * 8) data));
          buffer = Push buffer (ucast (signed_drop_bit (3 * 8) data));
          buffer = Push buffer (ucast (signed_drop_bit (4 * 8) data));
          buffer = Push buffer (ucast (signed_drop_bit (5 * 8) data));
          buffer = Push buffer (ucast (signed_drop_bit (6 * 8) data));
          buffer = Push buffer (ucast (signed_drop_bit (7 * 8) data))
      in buffer)"

definition Encode_uint8 :: "ByteBuffer \<Rightarrow> uint8 \<Rightarrow> ByteBuffer" where
  "Encode_uint8 buffer data = Push buffer data"

definition Encode_uint16 :: "ByteBuffer \<Rightarrow> uint16 \<Rightarrow> ByteBuffer" where
  "Encode_uint16 buffer data =
     (let buffer = Push buffer (ucast (shr_int (ucast data) (0 * 8)));
          buffer = Push buffer (ucast (shr_int (ucast data) (1 * 8)))
      in buffer)"

definition Encode_uint32 :: "ByteBuffer \<Rightarrow> uint32 \<Rightarrow> ByteBuffer" where
  "Encode_uint32 buffer data =
     (let buffer = Push buffer (ucast (drop_bit (0 * 8) data));
          buffer = Push buffer (ucast (drop_bit (1 * 8) data));
          buffer = Push buffer (ucast (drop_bit (2 * 8) data));
          buffer = Push buffer (ucast (drop_bit (3 * 8) data))
      in buffer)"

definition Encode_uint64 :: "ByteBuffer \<Rightarrow> uint64 \<Rightarrow> ByteBuffer" where
  "Encode_uint64 buffer data =
     (let buffer = Push buffer (ucast (drop_bit (0 * 8) data));
          buffer = Push buffer (ucast (drop_bit (1 * 8) data));
          buffer = Push buffer (ucast (drop_bit (2 * 8) data));
          buffer = Push buffer (ucast (drop_bit (3 * 8) data));
          buffer = Push buffer (ucast (drop_bit (4 * 8) data));
          buffer = Push buffer (ucast (drop_bit (5 * 8) data));
          buffer = Push buffer (ucast (drop_bit (6 * 8) data));
          buffer = Push buffer (ucast (drop_bit (7 * 8) data))
      in buffer)"

text \<open>\<open>Encode<float>\<close> copies the four bytes into an \<open>int\<close> and encodes that.\<close>

definition Encode_float :: "ByteBuffer \<Rightarrow> float \<Rightarrow> ByteBuffer" where
  "Encode_float buffer data = (let temp = float_bits data in Encode_int32 buffer temp)"

text \<open>
  \<open>Encode<const char*>\<close>: \<open>c\<close> is the memory from the pointer on, the characters of the
  string followed by its terminator, so that reading at the end of the list reads the
  terminating NUL. \<open>cap\<close> is \<open>STR_MAX_ENCODE_LEN\<close>, which a game may override.
\<close>

definition STR_MAX_ENCODE_LEN :: nat where
  "STR_MAX_ENCODE_LEN = 128"

definition deref :: "uint8 list \<Rightarrow> uint8" where
  "deref c = (case c of [] \<Rightarrow> 0 | x # _ \<Rightarrow> x)"

function Encode_cstr_loop :: "nat \<Rightarrow> nat \<Rightarrow> uint8 list \<Rightarrow> ByteBuffer \<Rightarrow> ByteBuffer" where
  "Encode_cstr_loop cap i c buffer =
     (if i < cap then
        (let buffer = Push buffer (deref c)
         in if deref c = 0 then buffer
            else Encode_cstr_loop cap (i + 1) (tl c) buffer)
      else Push buffer 0)"
  by pat_completeness auto
termination
  by (relation "measure (\<lambda>(cap, i, c, buffer). cap - i)") auto

declare Encode_cstr_loop.simps [simp del]

definition Encode_cstr :: "nat \<Rightarrow> ByteBuffer \<Rightarrow> uint8 list \<Rightarrow> ByteBuffer" where
  "Encode_cstr cap buffer data = Encode_cstr_loop cap 1 data buffer"

definition Encode_string :: "nat \<Rightarrow> ByteBuffer \<Rightarrow> std_string \<Rightarrow> ByteBuffer" where
  "Encode_string cap buffer data = Encode_cstr cap buffer data"

section \<open>Decoding of the primitive types\<close>

text \<open>
  A decoder returns the \<open>bool\<close> of the source, the value left in the \<open>out\<close> parameter and the
  buffer as it leaves it. The integer decoders assign \<open>out = 0\<close> first, so they do not
  depend on what \<open>out\<close> held; the float and the string decoder do, and take it.
  \<open>out += e\<close> computes in the promoted type and converts back to the type of \<open>out\<close>.
\<close>

definition Decode_int8 :: "ByteBuffer \<Rightarrow> (bool \<times> int8 \<times> ByteBuffer) option" where
  "Decode_int8 buffer =
     (let out = 0 in
      if Size buffer < 1 then Some (False, out, buffer)
      else do {
        (b, buffer) \<leftarrow> Pop buffer;
        let out = (ucast ((scast out :: cint) + ucast b) :: int8);
        Some (True, out, buffer)
      })"

definition Decode_int16 :: "ByteBuffer \<Rightarrow> (bool \<times> int16 \<times> ByteBuffer) option" where
  "Decode_int16 buffer =
     (let out = 0 in
      if Size buffer < 2 then Some (False, out, buffer)
      else do {
        (b, buffer) \<leftarrow> Pop buffer;
        e \<leftarrow> shl_int (ucast b) (0 * 8);
        let out = (ucast ((scast out :: cint) + e) :: int16);
        (b, buffer) \<leftarrow> Pop buffer;
        e \<leftarrow> shl_int (ucast b) (1 * 8);
        let out = (ucast ((scast out :: cint) + e) :: int16);
        Some (True, out, buffer)
      })"

definition Decode_int32 :: "ByteBuffer \<Rightarrow> (bool \<times> int32 \<times> ByteBuffer) option" where
  "Decode_int32 buffer =
     (let out = 0 in
      if Size buffer < 4 then Some (False, out, buffer)
      else do {
        (b, buffer) \<leftarrow> Pop buffer;
        e \<leftarrow> shl_int (ucast b) (0 * 8);
        let out = out + e;
        (b, buffer) \<leftarrow> Pop buffer;
        e \<leftarrow> shl_int (ucast b) (1 * 8);
        let out = out + e;
        (b, buffer) \<leftarrow> Pop buffer;
        e \<leftarrow> shl_int (ucast b) (2 * 8);
        let out = out + e;
        (b, buffer) \<leftarrow> Pop buffer;
        e \<leftarrow> shl_int (ucast b) (3 * 8);
        let out = out + e;
        Some (True, out, buffer)
      })"

definition Decode_int64 :: "ByteBuffer \<Rightarrow> (bool \<times> int64 \<times> ByteBuffer) option" where
  "Decode_int64 buffer =
     (let out = 0 in
      if Size buffer < 8 then Some (False, out, buffer)
      else do {
        (b, buffer) \<leftarrow> Pop buffer;
        e \<leftarrow> shl_int (ucast b) (0 * 8);
        let out = out + scast e;
        (b, buffer) \<leftarrow> Pop buffer;
        e \<leftarrow> shl_int (ucast b) (1 * 8);
        let out = out + scast e;
        (b, buffer) \<leftarrow> Pop buffer;
        e \<leftarrow> shl_int (ucast b) (2 * 8);
        let out = out + scast e;
        (b, buffer) \<leftarrow> Pop buffer;
        e \<leftarrow> shl_int (ucast b) (3 * 8);
        let out = out + scast e;
        (b, buffer) \<leftarrow> Pop buffer;
        e \<leftarrow> shl_int (ucast b) (4 * 8);
        let out = out + scast e;
        (b, buffer) \<leftarrow> Pop buffer;
        e \<leftarrow> shl_int (ucast b) (5 * 8);
        let out = out + scast e;
        (b, buffer) \<leftarrow> Pop buffer;
        e \<leftarrow> shl_int (ucast b) (6 * 8);
        let out = out + scast e;
        (b, buffer) \<leftarrow> Pop buffer;
        e \<leftarrow> shl_int (ucast b) (7 * 8);
        let out = out + scast e;
        Some (True, out, buffer)
      })"

definition Decode_uint8 :: "ByteBuffer \<Rightarrow> (bool \<times> uint8 \<times> ByteBuffer) option" where
  "Decode_uint8 buffer =
     (let out = 0 in
      if Size buffer < 1 then Some (False, out, buffer)
      else do {
        (b, buffer) \<leftarrow> Pop buffer;
        let out = (ucast ((ucast out :: cint) + ucast b) :: uint8);
        Some (True, out, buffer)
      })"

definition Decode_uint16 :: "ByteBuffer \<Rightarrow> (bool \<times> uint16 \<times> ByteBuffer) option" where
  "Decode_uint16 buffer =
     (let out = 0 in
      if Size buffer < 2 then Some (False, out, buffer)
      else do {
        (b, buffer) \<leftarrow> Pop buffer;
        e \<leftarrow> shl_int (ucast b) (0 * 8);
        let out = (ucast ((ucast out :: cint) + e) :: uint16);
        (b, buffer) \<leftarrow> Pop buffer;
        e \<leftarrow> shl_int (ucast b) (1 * 8);
        let out = (ucast ((ucast out :: cint) + e) :: uint16);
        Some (True, out, buffer)
      })"

definition Decode_uint32 :: "ByteBuffer \<Rightarrow> (bool \<times> uint32 \<times> ByteBuffer) option" where
  "Decode_uint32 buffer =
     (let out = 0 in
      if Size buffer < 4 then Some (False, out, buffer)
      else do {
        (b, buffer) \<leftarrow> Pop buffer;
        e \<leftarrow> shl_int (ucast b) (0 * 8);
        let out = out + e;
        (b, buffer) \<leftarrow> Pop buffer;
        e \<leftarrow> shl_int (ucast b) (1 * 8);
        let out = out + e;
        (b, buffer) \<leftarrow> Pop buffer;
        e \<leftarrow> shl_int (ucast b) (2 * 8);
        let out = out + e;
        (b, buffer) \<leftarrow> Pop buffer;
        e \<leftarrow> shl_int (ucast b) (3 * 8);
        let out = out + e;
        Some (True, out, buffer)
      })"

definition Decode_uint64 :: "ByteBuffer \<Rightarrow> (bool \<times> uint64 \<times> ByteBuffer) option" where
  "Decode_uint64 buffer =
     (let out = 0 in
      if Size buffer < 8 then Some (False, out, buffer)
      else do {
        (b, buffer) \<leftarrow> Pop buffer;
        e \<leftarrow> shl_int (ucast b) (0 * 8);
        let out = out + scast e;
        (b, buffer) \<leftarrow> Pop buffer;
        e \<leftarrow> shl_int (ucast b) (1 * 8);
        let out = out + scast e;
        (b, buffer) \<leftarrow> Pop buffer;
        e \<leftarrow> shl_int (ucast b) (2 * 8);
        let out = out + scast e;
        (b, buffer) \<leftarrow> Pop buffer;
        e \<leftarrow> shl_int (ucast b) (3 * 8);
        let out = out + scast e;
        (b, buffer) \<leftarrow> Pop buffer;
        e \<leftarrow> shl_int (ucast b) (4 * 8);
        let out = out + scast e;
        (b, buffer) \<leftarrow> Pop buffer;
        e \<leftarrow> shl_int (ucast b) (5 * 8);
        let out = out + scast e;
        (b, buffer) \<leftarrow> Pop buffer;
        e \<leftarrow> shl_int (ucast b) (6 * 8);
        let out = out + scast e;
        (b, buffer) \<leftarrow> Pop buffer;
        e \<leftarrow> shl_int (ucast b) (7 * 8);
        let out = out + scast e;
        Some (True, out, buffer)
      })"

text \<open>
  \<open>Decode<float>\<close> tests the size itself, before it touches \<open>out\<close>, and then decodes a
  \<open>uint32\<close> whose result it does not test.
\<close>

definition Decode_float :: "ByteBuffer \<Rightarrow> float \<Rightarrow> (bool \<times> float \<times> ByteBuffer) option" where
  "Decode_float buffer out =
     (if Size buffer < 4 then Some (False, out, buffer)
      else do {
        (r, temp, buffer) \<leftarrow> Decode_uint32 buffer;
        let out = Float32 temp;
        Some (True, out, buffer)
      })"

function Decode_string :: "ByteBuffer \<Rightarrow> std_string \<Rightarrow> (bool \<times> std_string \<times> ByteBuffer) option" where
  "Decode_string buffer out =
     (if Size buffer = 0 then Some (False, out, buffer)
      else (case Pop buffer of
              None \<Rightarrow> None
            | Some (c, buffer') \<Rightarrow>
                if c = 0 then Some (True, out, buffer')
                else Decode_string buffer' (out @ [c])))"
  by pat_completeness auto
termination
  by (relation "measure (\<lambda>(buffer, out). Size buffer)")
     (auto simp add: Pop_def Size_def split: if_splits)

declare Decode_string.simps [simp del]

section \<open>RPC records and roles (NetSerializableBase.h)\<close>

datatype RPCCallingMode = Unknown | Host | Owner | Broadcast

text \<open>\<open>SocketType\<close> is declared in NetSocket.h, which is not among the sources; its two
  enumerators are the ones the sources name.\<close>

datatype SocketType = TCP | UDP

record RPCInfo =
  index :: uint16
  callingMode :: RPCCallingMode
  socket :: SocketType

text \<open>The fields \<open>function\<close> and \<open>params\<close> of \<open>RPCRequest\<close> carry a prefix here.\<close>

record RPCRequest =
  rq_function :: RPCInfo
  rq_params :: ByteBuffer

type_synonym RPCQueue = "RPCRequest list"

datatype NetRole = None_NetRole | RemotePuppet | HostPuppet | RemoteOwner | HostOwner

record NetSerializableBase =
  m_netRole :: NetRole
  m_networkOwnerId :: uint16
  m_networkId :: uint16
  bFirstNetUpdate :: bool
  m_UdpRpcQueue :: RPCQueue
  m_TcpRpcQueue :: RPCQueue
  bIsNetSynced :: bool

definition GetNetworkID :: "NetSerializableBase \<Rightarrow> uint16" where
  "GetNetworkID obj = m_networkId obj"

definition GetNetRole :: "NetSerializableBase \<Rightarrow> NetRole" where
  "GetNetRole obj = m_netRole obj"

definition IsNetOwner :: "NetSerializableBase \<Rightarrow> bool" where
  "IsNetOwner obj \<longleftrightarrow>
     m_netRole obj = None_NetRole \<or> m_netRole obj = HostOwner \<or> m_netRole obj = RemoteOwner"

definition IsNetHost :: "NetSerializableBase \<Rightarrow> bool" where
  "IsNetHost obj \<longleftrightarrow> m_netRole obj = HostOwner \<or> m_netRole obj = HostPuppet"

definition HasNetControl :: "NetSerializableBase \<Rightarrow> bool" where
  "HasNetControl obj \<longleftrightarrow> IsNetOwner obj \<or> IsNetHost obj"

section \<open>The RPC override pair\<close>

text \<open>
  A class that registers RPCs overrides \<open>RegisterRPCs\<close> and \<open>ExecuteRPC\<close> with a body made of
  the header macro, one entry macro per function, and \<open>return false\<close>. The model of such a
  body is the list of its entries; a class hierarchy is the list of these bodies from the
  most derived class up, so that \<open>__super\<close> of the head is the tail. The empty hierarchy is
  \<open>NetSerializableBase\<close> itself.

  \<open>RPC_INDEX(socketType, mode, func)\<close> compares the name and otherwise increments the index
  of the \<open>RPCInfo\<close>, which \<open>RPC_INDEX_HEADER\<close> binds by reference.
\<close>

datatype RPC_INDEX = RPC_INDEX SocketType RPCCallingMode string

fun index_entries :: "RPC_INDEX list \<Rightarrow> string \<Rightarrow> RPCInfo \<Rightarrow> bool \<times> RPCInfo" where
  "index_entries [] TEMP_NAME TEMP_INFO = (False, TEMP_INFO)"
| "index_entries (RPC_INDEX socketType mode func # rest) TEMP_NAME TEMP_INFO =
     (if TEMP_NAME = func
      then (True, TEMP_INFO\<lparr>callingMode := mode, socket := socketType\<rparr>)
      else index_entries rest TEMP_NAME (TEMP_INFO\<lparr>index := index TEMP_INFO + 1\<rparr>))"

text \<open>
  Modelled from the spec: \<open>NetSerializableBase::RegisterRPCs\<close>, the root of the chain, whose
  body (NetSerializableBase.cpp) is not among the sources. The spec: the index is the
  "position in a per-class ordered RPC table", counted from 0, and a name no table holds
  "signals not found". The root holds no entry: it starts the count and returns false.
\<close>

definition NetSerializableBase_RegisterRPCs :: "string \<Rightarrow> RPCInfo \<Rightarrow> bool \<times> RPCInfo" where
  "NetSerializableBase_RegisterRPCs func outInfo = (False, outInfo\<lparr>index := 0\<rparr>)"

fun RegisterRPCs :: "RPC_INDEX list list \<Rightarrow> string \<Rightarrow> RPCInfo \<Rightarrow> bool \<times> RPCInfo" where
  "RegisterRPCs [] func outInfo = NetSerializableBase_RegisterRPCs func outInfo"
| "RegisterRPCs (cls # supers) func outInfo =
     (case RegisterRPCs supers func outInfo of
        (found, TEMP_INFO) \<Rightarrow>
          if found then (True, TEMP_INFO) else index_entries cls func TEMP_INFO)"

text \<open>
  \<open>RPC_EXEC\<close>, \<open>RPC_EXEC_OneParam\<close>, ..., \<open>RPC_EXEC_FiveParam\<close> differ in the number of
  parameters they decode: an entry is the function's name and the decoders of its declared
  parameter types, in declared order (none for \<open>RPC_EXEC\<close>). A decoder is \<open>Decode<T>\<close> applied
  to the entry's fresh local of type \<open>T\<close>. The decoders are joined by \<open>&&\<close>, so the first
  one that returns false ends the decoding. Calling the function is recorded as the
  \<open>Invocation\<close> of its name with the decoded arguments.
\<close>

type_synonym 'v decoder = "ByteBuffer \<Rightarrow> (bool \<times> 'v \<times> ByteBuffer) option"

datatype 'v RPC_EXEC = RPC_EXEC string "'v decoder list"

datatype 'v invocation = Invocation string "'v list"

fun decode_params :: "'v decoder list \<Rightarrow> ByteBuffer \<Rightarrow> (bool \<times> 'v list \<times> ByteBuffer) option" where
  "decode_params [] TEMP_BUFFER = Some (True, [], TEMP_BUFFER)"
| "decode_params (d # ds) TEMP_BUFFER =
     (case d TEMP_BUFFER of
        None \<Rightarrow> None
      | Some (ok, a, TEMP_BUFFER) \<Rightarrow>
          if ok then
            (case decode_params ds TEMP_BUFFER of
               None \<Rightarrow> None
             | Some (ok, as, TEMP_BUFFER) \<Rightarrow> Some (ok, a # as, TEMP_BUFFER))
          else Some (False, [], TEMP_BUFFER))"

text \<open>The entries of one \<open>ExecuteRPC\<close> body, followed by its \<open>return false\<close>.\<close>

fun exec_entries ::
  "'v RPC_EXEC list \<Rightarrow> uint16 \<Rightarrow> ByteBuffer \<Rightarrow> (bool \<times> 'v invocation option \<times> ByteBuffer) option" where
  "exec_entries [] TEMP_ID TEMP_BUFFER = Some (False, None, TEMP_BUFFER)"
| "exec_entries (RPC_EXEC func types # rest) TEMP_ID TEMP_BUFFER =
     (if TEMP_ID = 0 then
        (case decode_params types TEMP_BUFFER of
           None \<Rightarrow> None
         | Some (ok, args, TEMP_BUFFER) \<Rightarrow>
             Some (True, if ok then Some (Invocation func args) else None, TEMP_BUFFER))
      else exec_entries rest (TEMP_ID - 1) TEMP_BUFFER)"

text \<open>
  Modelled from the spec: \<open>NetSerializableBase::ExecuteRPC\<close>, the root of the chain, whose
  body is not among the sources. The spec: \<open>ExecuteRPC\<close> "returns whether dispatch
  succeeded"; the root declares no RPC, so it reports "not found" and touches nothing.
\<close>

definition NetSerializableBase_ExecuteRPC ::
  "uint16 \<Rightarrow> ByteBuffer \<Rightarrow> (bool \<times> uint16 \<times> 'v invocation option \<times> ByteBuffer) option" where
  "NetSerializableBase_ExecuteRPC rid params = Some (False, rid, None, params)"

text \<open>
  \<open>ExecuteRPC(uint16& id, ByteBuffer& params)\<close> takes \<open>id\<close> by reference, so the model
  returns, after the \<open>bool\<close>, the value the referenced variable holds when the function
  returns. \<open>RPC_EXEC_HEADER\<close> declares \<open>uint16 __TEMP_ID = id\<close>, a copy, and passes
  \<open>__TEMP_ID\<close> to \<open>__super::ExecuteRPC\<close>; the entries test and decrement \<open>__TEMP_ID\<close>. No
  macro assigns to \<open>id\<close>.
\<close>

fun ExecuteRPC ::
  "'v RPC_EXEC list list \<Rightarrow> uint16 \<Rightarrow> ByteBuffer
     \<Rightarrow> (bool \<times> uint16 \<times> 'v invocation option \<times> ByteBuffer) option" where
  "ExecuteRPC [] rid params = NetSerializableBase_ExecuteRPC rid params"
| "ExecuteRPC (cls # supers) rid params =
     (let TEMP_ID = rid in
      case ExecuteRPC supers TEMP_ID params of
        None \<Rightarrow> None
      | Some (handled, TEMP_ID, call, TEMP_BUFFER) \<Rightarrow>
          if handled then Some (True, rid, call, TEMP_BUFFER)
          else (case exec_entries cls TEMP_ID TEMP_BUFFER of
                  None \<Rightarrow> None
                | Some (r, call, TEMP_BUFFER) \<Rightarrow> Some (r, rid, call, TEMP_BUFFER)))"

section \<open>The CallRPC macros\<close>

text \<open>
  \<open>CallRPC\<close>, \<open>CallRPC_OneParam\<close>, ... expand to \<open>__CallRPC(object, func, funcCall,
  funcEncode)\<close> and differ in the call and in the statements that encode the arguments
  into the fresh \<open>__TEMP_BUFFER\<close> (\<open>funcEncode\<close>, a function on the buffer here). The macro
  stands in a member function: the unqualified \<open>GetNetworkID()\<close> reads the enclosing object
  \<open>this\<close>, which is \<open>object\<close> in the form \<open>CallRPC(this, ...)\<close> the sources use. \<open>classes\<close> are
  the \<open>RegisterRPCs\<close> bodies of the object's class, and \<open>TEMP_INFO\<close> what the uninitialised
  local \<open>RPCInfo\<close> holds. The result is the statement the macro runs: the direct call
  \<open>object->funcCall\<close>, the call of \<open>RemoteCallRPC\<close> (the member that queues a request), a
  \<open>LOG_ERROR\<close>, or none of them.
\<close>

datatype log_message = InvalidRights string | NotRegistered string

datatype rpc_effect =
    DirectCall
  | RemoteCallRPC RPCInfo ByteBuffer
  | LOG_ERROR log_message
  | NoEffect

definition CallRPC ::
  "NetSerializableBase \<Rightarrow> RPC_INDEX list list \<Rightarrow> NetSerializableBase \<Rightarrow> string
     \<Rightarrow> (ByteBuffer \<Rightarrow> ByteBuffer) \<Rightarrow> RPCInfo \<Rightarrow> rpc_effect" where
  "CallRPC this classes object func funcEncode TEMP_INFO =
     (let TEMP_NSB = object in
      case RegisterRPCs classes func TEMP_INFO of
        (registered, TEMP_INFO) \<Rightarrow>
          if registered then
            (if GetNetworkID this \<noteq> 0 then
               (if (IsNetHost TEMP_NSB \<and> callingMode TEMP_INFO = Host) \<or>
                   (IsNetOwner TEMP_NSB \<and> callingMode TEMP_INFO = Owner)
                then DirectCall
                else if IsNetHost TEMP_NSB \<or> callingMode TEMP_INFO \<noteq> Broadcast
                then (let TEMP_BUFFER = \<lparr>m_data = []\<rparr>;
                          TEMP_BUFFER = funcEncode TEMP_BUFFER
                      in RemoteCallRPC TEMP_INFO TEMP_BUFFER)
                else LOG_ERROR (InvalidRights func))
             else NoEffect)
          else LOG_ERROR (NotRegistered func))"

section \<open>The host session (NetHostSession.cpp) and the default net layer\<close>

text \<open>
  The headers of the session, the socket and the client are not among the sources. The
  records below hold the members the session's functions use. A \<open>NetClient*\<close> is a
  \<open>NetClient option\<close>, \<open>None\<close> being \<open>nullptr\<close>; the list \<open>m_clients\<close> holds the clients that
  its pointers point to. \<open>m_clientLookup\<close> is the identity-keyed table of the spec: a key
  that is present maps to a pointer, which may be null.
\<close>

record NetIdentity =
  ip :: uint32
  port :: uint16

record NetClient =
  m_identity :: NetIdentity

record RawNetPacket =
  packet_source :: NetIdentity
  packet_buffer :: ByteBuffer

datatype NetResponseCode =
  Unknown_Response | BadRequest | BadVersions | BadAuthentication | Accepted | Responded

datatype NetRequestType = Ping | Connect | Query

text \<open>
  Modelled from the spec: the socket, a collaborator the core consumes through
  "SendTo(bytes, length, destIdentity)". The model keeps the socket's type and the list
  of what was sent through it.
\<close>

record NetSocket =
  m_socketType :: SocketType
  m_sent :: "(uint8 list \<times> NetIdentity) list"

definition GetSocketType :: "NetSocket \<Rightarrow> SocketType" where
  "GetSocketType sock = m_socketType sock"

definition SendTo :: "NetSocket \<Rightarrow> uint8 list \<Rightarrow> nat \<Rightarrow> NetIdentity \<Rightarrow> NetSocket" where
  "SendTo sock bytes len dest = sock\<lparr>m_sent := m_sent sock @ [(take len bytes, dest)]\<rparr>"

text \<open>
  What the handshake reads from outside the session: the versions of the engine and the
  game, the decoder of \<open>Version\<close>, and the numeric values of the enumerators of
  \<open>NetRequestType\<close> and \<open>NetResponseCode\<close>. None of their declarations is among the sources,
  so they are parameters.
\<close>

record 'ver host_env =
  engine_version :: 'ver
  game_version :: 'ver
  Decode_Version :: "'ver decoder"
  request_value :: "NetRequestType \<Rightarrow> uint16"
  response_value :: "NetResponseCode \<Rightarrow> uint16"

record NetHostSession =
  m_clients :: "NetClient list"
  m_clientLookup :: "NetIdentity \<rightharpoonup> NetClient option"
  maxPlayerCount :: uint16
  bIsHost :: bool
  bIsConnected :: bool

definition bytes_of :: "string \<Rightarrow> std_string" where
  "bytes_of s = map (\<lambda>c. word_of_nat (of_char c)) s"

text \<open>The reply that carries a response code and nothing else.\<close>

definition respond ::
  "'ver host_env \<Rightarrow> NetResponseCode \<Rightarrow> RawNetPacket \<Rightarrow> NetSocket
     \<Rightarrow> (NetResponseCode \<times> RawNetPacket \<times> NetSocket) option" where
  "respond env code packet sock =
     (let response = \<lparr>m_data = []\<rparr>;
          response = Encode_uint16 response (response_value env code);
          sock = SendTo sock (Data response) (Size response) (packet_source packet)
      in Some (code, packet, sock))"

text \<open>
  \<open>VerifyHandshake\<close>: the three header decodes are joined by \<open>||\<close>, so the first that fails
  ends them. The \<open>switch\<close> on the request type has the cases \<open>Ping\<close>, \<open>Connect\<close> and \<open>Query\<close>,
  in this order, and falls out to \<open>Unknown\<close>.
\<close>

definition VerifyHandshake ::
  "'ver host_env \<Rightarrow> NetHostSession \<Rightarrow> NetClient option \<Rightarrow> RawNetPacket \<Rightarrow> NetSocket
     \<Rightarrow> (NetResponseCode \<times> RawNetPacket \<times> NetSocket) option" where
  "VerifyHandshake env s client packet sock =
     (case Decode_Version env (packet_buffer packet) of
        None \<Rightarrow> None
      | Some (okE, engineVersion, buf) \<Rightarrow>
     if \<not> okE then respond env BadRequest (packet\<lparr>packet_buffer := buf\<rparr>) sock else
     (case Decode_Version env buf of
        None \<Rightarrow> None
      | Some (okG, gameVersion, buf) \<Rightarrow>
     if \<not> okG then respond env BadRequest (packet\<lparr>packet_buffer := buf\<rparr>) sock else
     (case Decode_uint16 buf of
        None \<Rightarrow> None
      | Some (okR, requestType, buf) \<Rightarrow>
     if \<not> okR then respond env BadRequest (packet\<lparr>packet_buffer := buf\<rparr>) sock else
     (let packet = packet\<lparr>packet_buffer := buf\<rparr> in
      if engine_version env \<noteq> engineVersion \<or> game_version env \<noteq> gameVersion
      then respond env BadVersions packet sock
      else if requestType = request_value env Ping
      then respond env Responded packet sock
      else if requestType = request_value env Connect
      then respond env Accepted packet sock
      else if requestType = request_value env Query
      then (let response = \<lparr>m_data = []\<rparr>;
                response = Encode_uint16 response (response_value env Responded);
                response = Encode_uint16 response (word_of_nat (length (m_clients s)));
                response = Encode_uint16 response (maxPlayerCount s);
                response = Encode_string STR_MAX_ENCODE_LEN response (bytes_of ''Unnamed Server'');
                response = Encode_uint8 response 0;
                sock = SendTo sock (Data response) (Size response) (packet_source packet)
            in Some (Responded, packet, sock))
      else Some (Unknown_Response, packet, sock)))))"

text \<open>
  \<open>m_clientLookup[identity]\<close> is \<open>operator[]\<close> of the standard map: a key that is absent is
  inserted with a value-initialised pointer, \<open>nullptr\<close>, which is then returned.
\<close>

definition map_subscript ::
  "('k \<rightharpoonup> 'p option) \<Rightarrow> 'k \<Rightarrow> 'p option \<times> ('k \<rightharpoonup> 'p option)" where
  "map_subscript m k = (case m k of None \<Rightarrow> (None, m(k \<mapsto> None)) | Some p \<Rightarrow> (p, m))"

definition GetClient :: "NetHostSession \<Rightarrow> NetIdentity \<Rightarrow> NetClient option \<times> NetHostSession" where
  "GetClient s identity =
     (case map_subscript (m_clientLookup s) identity of
        (client, lookup) \<Rightarrow>
          (let s = s\<lparr>m_clientLookup := lookup\<rparr>
           in if client \<noteq> None then (client, s) else (None, s)))"

definition ForwardToClient ::
  "'ver host_env \<Rightarrow> NetHostSession \<Rightarrow> RawNetPacket \<Rightarrow> NetSocket
     \<Rightarrow> (NetHostSession \<times> RawNetPacket \<times> NetSocket) option" where
  "ForwardToClient env s packet sock =
     (let identity = packet_source packet in
      case GetClient s identity of
        (client, s) \<Rightarrow>
          if client = None \<and> GetSocketType sock = TCP then
            (let client = \<lparr>m_identity = identity\<rparr> in
             case VerifyHandshake env s (Some client) packet sock of
               None \<Rightarrow> None
             | Some (code, packet, sock) \<Rightarrow>
                 if code = Accepted
                 then Some (s\<lparr>m_clients := m_clients s @ [client],
                              m_clientLookup := (m_clientLookup s)(identity \<mapsto> Some client)\<rparr>,
                            packet, sock)
                 else Some (s, packet, sock))
          else if client = None then Some (s, packet, sock)
          else Some (s, packet, sock))"

text \<open>
  \<open>DefaultNetLayer\<close> (DefaultNetLayer.cpp) holds the password of the host.
  \<open>OnDecodeHandshake\<close> returns the response code, the name it sets on the player
  controller when it accepts, and the buffer as it leaves it. The connection flags of the
  layer are read by none of the functions here and are left out.
\<close>

record DefaultNetLayer =
  m_password :: std_string

definition SetPassword :: "DefaultNetLayer \<Rightarrow> std_string \<Rightarrow> DefaultNetLayer" where
  "SetPassword layer pass = layer\<lparr>m_password := pass\<rparr>"

definition OnDecodeHandshake ::
  "DefaultNetLayer \<Rightarrow> NetIdentity \<Rightarrow> ByteBuffer
     \<Rightarrow> (NetResponseCode \<times> std_string option \<times> ByteBuffer) option" where
  "OnDecodeHandshake layer connection inBuffer =
     (let playerName = []; password = [] in
      case Decode_string inBuffer playerName of
        None \<Rightarrow> None
      | Some (okN, playerName, inBuffer) \<Rightarrow>
      if \<not> okN then Some (BadRequest, None, inBuffer) else
      (case Decode_string inBuffer password of
         None \<Rightarrow> None
       | Some (okP, password, inBuffer) \<Rightarrow>
       if \<not> okP then Some (BadRequest, None, inBuffer)
       else if m_password layer \<noteq> [] \<and> m_password layer \<noteq> password
       then Some (BadAuthentication, None, inBuffer)
       else Some (Accepted, Some playerName, inBuffer)))"

section \<open>The test entity and a handshake request\<close>

text \<open>
  The two bodies of \<open>ATestEntity\<close> (TestEntity.cpp). \<open>A\<close> and \<open>B\<close> are what the uninitialised
  locals \<open>float A; float B;\<close> of \<open>RPC_EXEC_TwoParam\<close> hold before they are decoded into.
\<close>

definition ATestEntity_RegisterRPCs :: "RPC_INDEX list" where
  "ATestEntity_RegisterRPCs =
     [RPC_INDEX TCP Host ''ResetPosition'',
      RPC_INDEX UDP Broadcast ''MoveTo'',
      RPC_INDEX UDP Broadcast ''PrintTime'']"

definition ATestEntity_ExecuteRPC :: "float \<Rightarrow> float \<Rightarrow> float RPC_EXEC list" where
  "ATestEntity_ExecuteRPC A B =
     [RPC_EXEC ''ResetPosition'' [],
      RPC_EXEC ''MoveTo''
        [\<lambda>TEMP_BUFFER. Decode_float TEMP_BUFFER A, \<lambda>TEMP_BUFFER. Decode_float TEMP_BUFFER B],
      RPC_EXEC ''PrintTime''
        [\<lambda>TEMP_BUFFER. Decode_float TEMP_BUFFER A, \<lambda>TEMP_BUFFER. Decode_float TEMP_BUFFER B]]"

text \<open>
  The entry a chain of bodies reaches for an index. Each body first asks its parent and
  then tests its own entries against the index it was called with, so the entry reached
  is the one at that position in the body nearest the root that is long enough.
\<close>

fun dispatched_entry :: "'v RPC_EXEC list list \<Rightarrow> uint16 \<Rightarrow> 'v RPC_EXEC option" where
  "dispatched_entry [] rid = None"
| "dispatched_entry (cls # supers) rid =
     (case dispatched_entry supers rid of
        Some e \<Rightarrow> Some e
      | None \<Rightarrow> if unat rid < length cls then Some (cls ! unat rid) else None)"

text \<open>
  An environment for running the handshake: versions that are one \<open>uint16\<close> each, and the
  enumerators numbered in the order the spec lists them. \<open>connect_request\<close> is the request
  of the spec's scenario as the client encodes it: both versions 1, the request type
  \<open>Connect\<close>, the name "Alice" and the empty password.
\<close>

definition env0 :: "uint16 host_env" where
  "env0 =
     \<lparr>engine_version = 1, game_version = 1, Decode_Version = Decode_uint16,
      request_value = (\<lambda>r. case r of Ping \<Rightarrow> 0 | Connect \<Rightarrow> 1 | Query \<Rightarrow> 2),
      response_value =
        (\<lambda>c. case c of Unknown_Response \<Rightarrow> 0 | BadRequest \<Rightarrow> 1 | BadVersions \<Rightarrow> 2
                     | BadAuthentication \<Rightarrow> 3 | Accepted \<Rightarrow> 4 | Responded \<Rightarrow> 5)\<rparr>"

definition connect_request :: ByteBuffer where
  "connect_request =
     (let b = \<lparr>m_data = []\<rparr>;
          b = Encode_uint16 b 1;
          b = Encode_uint16 b 1;
          b = Encode_uint16 b 1;
          b = Encode_string STR_MAX_ENCODE_LEN b (bytes_of ''Alice'');
          b = Encode_string STR_MAX_ENCODE_LEN b (bytes_of [])
      in b)"

section \<open>Buffer facts\<close>

lemma Pop_Push: "Pop (Push b x) = Some (x, b)"
  by (simp add: Pop_def Push_def)

lemma Size_Push: "Size (Push b x) = Suc (Size b)"
  by (simp add: Size_def Push_def)

lemma Pop_snoc: "Pop \<lparr>m_data = xs @ [x]\<rparr> = Some (x, \<lparr>m_data = xs\<rparr>)"
  by (simp add: Pop_def)

lemma Pop_append_Cons:
  "Pop \<lparr>m_data = xs @ y # ys\<rparr> = Some (last (y # ys), \<lparr>m_data = xs @ butlast (y # ys)\<rparr>)"
  by (simp add: Pop_def butlast_append)

lemmas buffer_defs = Size_def Push_def Flip_def shl_int_def shr_int_def

section \<open>Integers and floats: encode, flip, decode\<close>

text \<open>An addition whose operands share no bit is the bitwise or.\<close>

lemma add_push_bit_or:
  fixes x :: "'a::len word"
  assumes "take_bit n x = x"
  shows "x + push_bit n y = x OR push_bit n y"
proof (rule disjunctive_add_eq_or, rule bit_eqI)
  fix k
  have "bit x k \<Longrightarrow> k < n"
    using assms by (metis bit_take_bit_iff)
  then show "bit (x AND push_bit n y) k = bit (0 :: 'a word) k"
    by (auto simp add: bit_simps)
qed

lemma bytes4_sum:
  fixes a b c d :: uint8
  shows "(ucast a :: 32 word) + push_bit 8 (ucast b) + push_bit 16 (ucast c) + push_bit 24 (ucast d)
         = ((ucast a OR push_bit 8 (ucast b)) OR push_bit 16 (ucast c)) OR push_bit 24 (ucast d)"
proof -
  have 1: "(ucast a :: 32 word) + push_bit 8 (ucast b) = ucast a OR push_bit 8 (ucast b)"
    by (rule add_push_bit_or) (rule bit_eqI, auto simp add: bit_simps dest: bit_imp_le_length)
  have 2: "(ucast a OR push_bit 8 (ucast b)) + push_bit 16 (ucast c)
           = (ucast a OR push_bit 8 (ucast b)) OR (push_bit 16 (ucast c) :: 32 word)"
    by (rule add_push_bit_or) (rule bit_eqI, auto simp add: bit_simps dest: bit_imp_le_length)
  have 3: "((ucast a OR push_bit 8 (ucast b)) OR push_bit 16 (ucast c)) + push_bit 24 (ucast d)
           = ((ucast a OR push_bit 8 (ucast b)) OR push_bit 16 (ucast c)) OR (push_bit 24 (ucast d) :: 32 word)"
    by (rule add_push_bit_or) (rule bit_eqI, auto simp add: bit_simps dest: bit_imp_le_length)
  show ?thesis by (simp only: 1 2 3)
qed

lemma ucast_ucast_byte: "(ucast (ucast (v :: uint8) :: cint) :: uint8) = v"
  by (rule bit_eqI) (auto simp add: bit_simps dest: bit_imp_le_length)

lemma Decode_Encode_uint8: "Decode_uint8 (Encode_uint8 b v) = Some (True, v, b)"
  by (simp add: Decode_uint8_def Encode_uint8_def Pop_def buffer_defs ucast_ucast_byte)

lemma Decode_Encode_int8: "Decode_int8 (Encode_int8 b v) = Some (True, v, b)"
  by (simp add: Decode_int8_def Encode_int8_def Pop_def buffer_defs ucast_ucast_byte)

lemma Decode_Flip_Encode_uint8:
  "Decode_uint8 (Flip \<lparr>m_data = m_data (Encode_uint8 \<lparr>m_data = []\<rparr> v) @ rest\<rparr>)
   = Some (True, v, Flip \<lparr>m_data = rest\<rparr>)"
  by (simp add: Decode_uint8_def Encode_uint8_def buffer_defs Pop_append_Cons ucast_ucast_byte)

lemma Decode_Flip_Encode_int8:
  "Decode_int8 (Flip \<lparr>m_data = m_data (Encode_int8 \<lparr>m_data = []\<rparr> v) @ rest\<rparr>)
   = Some (True, v, Flip \<lparr>m_data = rest\<rparr>)"
  by (simp add: Decode_int8_def Encode_int8_def buffer_defs Pop_append_Cons ucast_ucast_byte)

lemma Decode_Flip_Encode_uint16:
  "Decode_uint16 (Flip \<lparr>m_data = m_data (Encode_uint16 \<lparr>m_data = []\<rparr> v) @ rest\<rparr>)
   = Some (True, v, Flip \<lparr>m_data = rest\<rparr>)"
  apply (simp add: Decode_uint16_def Encode_uint16_def buffer_defs Pop_append_Cons)
  apply (subst add_push_bit_or)
   apply (rule bit_eqI, auto simp add: bit_simps)[1]
  apply (rule bit_eqI, auto simp add: bit_simps)
  done

lemma Decode_Flip_Encode_int16:
  "Decode_int16 (Flip \<lparr>m_data = m_data (Encode_int16 \<lparr>m_data = []\<rparr> v) @ rest\<rparr>)
   = Some (True, v, Flip \<lparr>m_data = rest\<rparr>)"
  apply (simp add: Decode_int16_def Encode_int16_def buffer_defs Pop_append_Cons)
  apply (subst add_push_bit_or)
   apply (rule bit_eqI, auto simp add: bit_simps)[1]
  apply (rule bit_eqI, auto simp add: bit_simps)
  done

lemma Decode_Flip_Encode_uint32:
  "Decode_uint32 (Flip \<lparr>m_data = m_data (Encode_uint32 \<lparr>m_data = []\<rparr> v) @ rest\<rparr>)
   = Some (True, v, Flip \<lparr>m_data = rest\<rparr>)"
  apply (simp add: Decode_uint32_def Encode_uint32_def buffer_defs Pop_append_Cons)
  apply (simp only: bytes4_sum)
  apply (rule bit_eqI)
  subgoal for n
    by (cases "n < 8"; cases "n < 16"; cases "n < 24"; auto simp add: bit_simps)
  done

lemma Decode_Flip_Encode_int32:
  "Decode_int32 (Flip \<lparr>m_data = m_data (Encode_int32 \<lparr>m_data = []\<rparr> v) @ rest\<rparr>)
   = Some (True, v, Flip \<lparr>m_data = rest\<rparr>)"
  apply (simp add: Decode_int32_def Encode_int32_def buffer_defs Pop_append_Cons)
  apply (simp only: bytes4_sum)
  apply (rule bit_eqI)
  subgoal for n
    by (cases "n < 8"; cases "n < 16"; cases "n < 24"; auto simp add: bit_simps)
  done

text \<open>The float is encoded as an \<open>int\<close> and decoded as a \<open>uint32\<close>.\<close>

lemma Decode_uint32_Flip_Encode_int32:
  "Decode_uint32 (Flip \<lparr>m_data = m_data (Encode_int32 \<lparr>m_data = []\<rparr> v) @ rest\<rparr>)
   = Some (True, v, Flip \<lparr>m_data = rest\<rparr>)"
  apply (simp add: Decode_uint32_def Encode_int32_def buffer_defs Pop_append_Cons)
  apply (simp only: bytes4_sum)
  apply (rule bit_eqI)
  subgoal for n
    by (cases "n < 8"; cases "n < 16"; cases "n < 24"; auto simp add: bit_simps)
  done

lemma Size_Flip_Encode_int32:
  "Size (Flip \<lparr>m_data = m_data (Encode_int32 \<lparr>m_data = []\<rparr> v) @ rest\<rparr>) = 4 + length rest"
  by (simp add: Encode_int32_def buffer_defs)

lemma Decode_Flip_Encode_float:
  "Decode_float (Flip \<lparr>m_data = m_data (Encode_float \<lparr>m_data = []\<rparr> v) @ rest\<rparr>) out
   = Some (True, v, Flip \<lparr>m_data = rest\<rparr>)"
  by (simp add: Decode_float_def Encode_float_def Size_Flip_Encode_int32
      Decode_uint32_Flip_Encode_int32)

text \<open>
  The 64-bit decoders shift the fifth popped byte, an \<open>int\<close>, by 32 bits: on a buffer that
  holds a whole value they run into the undefined shift.
\<close>

lemma last_five:
  assumes "5 \<le> length xs"
  obtains ys a b c d e where "xs = ys @ [a, b, c, d, e]"
proof -
  define zs where "zs = drop (length xs - 5) xs"
  have "length zs = 5" using assms by (simp add: zs_def)
  then obtain a b c d e where "zs = [a, b, c, d, e]"
    by (auto simp add: length_Suc_conv numeral_eq_Suc)
  moreover have "xs = take (length xs - 5) xs @ zs" by (simp add: zs_def)
  ultimately show ?thesis using that by metis
qed

lemma Decode_64_undefined:
  assumes "8 \<le> Size b"
  shows "Decode_uint64 b = None \<and> Decode_int64 b = None"
proof -
  from assms have "5 \<le> length (m_data b)" by (simp add: Size_def)
  then obtain ys a0 a1 a2 a3 a4 where "m_data b = ys @ [a0, a1, a2, a3, a4]"
    by (rule last_five)
  then have b: "b = \<lparr>m_data = ys @ [a0, a1, a2, a3, a4]\<rparr>" by (cases b) simp
  from assms show ?thesis
    unfolding b
    by (simp add: Decode_uint64_def Decode_int64_def Pop_append_Cons shl_int_def)
qed

lemma Flip_literal: "Flip \<lparr>m_data = xs\<rparr> = \<lparr>m_data = rev xs\<rparr>"
  by (simp add: Flip_def)

text \<open>
  C1 (as amended). A value of an 8-bit type is decoded from the buffer it was just encoded
  into. A value of an 8-, 16- or 32-bit integer type or a float is decoded exactly when
  the bytes of the buffer are reversed between encoding and decoding, which is what the
  spec says \<open>Flip\<close> does on the session's receive path: the value is encoded first into an
  empty buffer, any bytes \<open>rest\<close> may follow it, and on the reversed buffer the decoder
  returns true with the value and leaves the reversed \<open>rest\<close>.
\<close>

theorem round_trip_after_flip:
  "Decode_uint8 (Encode_uint8 b u8) = Some (True, u8, b) \<and>
   Decode_int8 (Encode_int8 b i8) = Some (True, i8, b) \<and>
   Decode_uint8 \<lparr>m_data = rev (m_data (Encode_uint8 \<lparr>m_data = []\<rparr> u8) @ rest)\<rparr>
     = Some (True, u8, \<lparr>m_data = rev rest\<rparr>) \<and>
   Decode_int8 \<lparr>m_data = rev (m_data (Encode_int8 \<lparr>m_data = []\<rparr> i8) @ rest)\<rparr>
     = Some (True, i8, \<lparr>m_data = rev rest\<rparr>) \<and>
   Decode_uint16 \<lparr>m_data = rev (m_data (Encode_uint16 \<lparr>m_data = []\<rparr> u16) @ rest)\<rparr>
     = Some (True, u16, \<lparr>m_data = rev rest\<rparr>) \<and>
   Decode_int16 \<lparr>m_data = rev (m_data (Encode_int16 \<lparr>m_data = []\<rparr> i16) @ rest)\<rparr>
     = Some (True, i16, \<lparr>m_data = rev rest\<rparr>) \<and>
   Decode_uint32 \<lparr>m_data = rev (m_data (Encode_uint32 \<lparr>m_data = []\<rparr> u32) @ rest)\<rparr>
     = Some (True, u32, \<lparr>m_data = rev rest\<rparr>) \<and>
   Decode_int32 \<lparr>m_data = rev (m_data (Encode_int32 \<lparr>m_data = []\<rparr> i32) @ rest)\<rparr>
     = Some (True, i32, \<lparr>m_data = rev rest\<rparr>) \<and>
   Decode_float \<lparr>m_data = rev (m_data (Encode_float \<lparr>m_data = []\<rparr> f) @ rest)\<rparr> out
     = Some (True, f, \<lparr>m_data = rev rest\<rparr>)"
  using Decode_Encode_uint8 [of b u8] Decode_Encode_int8 [of b i8]
    Decode_Flip_Encode_uint8 [of u8 rest] Decode_Flip_Encode_int8 [of i8 rest]
    Decode_Flip_Encode_uint16 [of u16 rest] Decode_Flip_Encode_int16 [of i16 rest]
    Decode_Flip_Encode_uint32 [of u32 rest] Decode_Flip_Encode_int32 [of i32 rest]
    Decode_Flip_Encode_float [of f rest out]
  unfolding Flip_literal by blast

text \<open>
  C1 as stated fails: decoding a \<open>uint16\<close> from the buffer it was just encoded into pops the
  high byte first and puts it lowest, so \<open>0x0102\<close> comes back as \<open>0x0201\<close>.
\<close>

theorem round_trip_immediate_uint16_fails:
  "Decode_uint16 (Encode_uint16 \<lparr>m_data = []\<rparr> 0x0102) = Some (True, 0x0201, \<lparr>m_data = []\<rparr>) \<and>
   (0x0201 :: uint16) \<noteq> 0x0102"
  by (simp add: Decode_uint16_def Encode_uint16_def Pop_def buffer_defs)

section \<open>Underrun\<close>

text \<open>
  C7 (as amended). A buffer that holds fewer bytes than the width of an integer type makes
  the decoder of that type return false with \<open>out\<close> set to zero; a buffer of fewer than
  four bytes makes the float decoder return false with \<open>out\<close> as it was. In both cases the
  buffer is returned as it was given: nothing was popped, so nothing was read.
\<close>

theorem underrun_returns_false:
  "(Size b < 1 \<longrightarrow> Decode_int8 b = Some (False, 0, b) \<and> Decode_uint8 b = Some (False, 0, b)) \<and>
   (Size b < 2 \<longrightarrow> Decode_int16 b = Some (False, 0, b) \<and> Decode_uint16 b = Some (False, 0, b)) \<and>
   (Size b < 4 \<longrightarrow> Decode_int32 b = Some (False, 0, b) \<and> Decode_uint32 b = Some (False, 0, b) \<and>
                  Decode_float b out = Some (False, out, b)) \<and>
   (Size b < 8 \<longrightarrow> Decode_int64 b = Some (False, 0, b) \<and> Decode_uint64 b = Some (False, 0, b))"
  by (simp add: Decode_int8_def Decode_uint8_def Decode_int16_def Decode_uint16_def
      Decode_int32_def Decode_uint32_def Decode_float_def Decode_int64_def Decode_uint64_def)

theorem underrun_returns_false_witness:
  "Size \<lparr>m_data = []\<rparr> < 1 \<and>
   Decode_int8 \<lparr>m_data = []\<rparr> = Some (False, 0, \<lparr>m_data = []\<rparr>) \<and>
   Decode_uint8 \<lparr>m_data = []\<rparr> = Some (False, 0, \<lparr>m_data = []\<rparr>) \<and>
   Size \<lparr>m_data = [7]\<rparr> < 2 \<and>
   Decode_int16 \<lparr>m_data = [7]\<rparr> = Some (False, 0, \<lparr>m_data = [7]\<rparr>) \<and>
   Decode_uint16 \<lparr>m_data = [7]\<rparr> = Some (False, 0, \<lparr>m_data = [7]\<rparr>) \<and>
   Size \<lparr>m_data = [7, 8, 9]\<rparr> < 4 \<and>
   Decode_int32 \<lparr>m_data = [7, 8, 9]\<rparr> = Some (False, 0, \<lparr>m_data = [7, 8, 9]\<rparr>) \<and>
   Decode_uint32 \<lparr>m_data = [7, 8, 9]\<rparr> = Some (False, 0, \<lparr>m_data = [7, 8, 9]\<rparr>) \<and>
   Decode_float \<lparr>m_data = [7, 8, 9]\<rparr> (Float32 5) = Some (False, Float32 5, \<lparr>m_data = [7, 8, 9]\<rparr>) \<and>
   Size \<lparr>m_data = [7, 8, 9]\<rparr> < 8 \<and>
   Decode_int64 \<lparr>m_data = [7, 8, 9]\<rparr> = Some (False, 0, \<lparr>m_data = [7, 8, 9]\<rparr>) \<and>
   Decode_uint64 \<lparr>m_data = [7, 8, 9]\<rparr> = Some (False, 0, \<lparr>m_data = [7, 8, 9]\<rparr>)"
  using underrun_returns_false [of "\<lparr>m_data = []\<rparr>"]
    underrun_returns_false [of "\<lparr>m_data = [7]\<rparr>"]
    underrun_returns_false [of "\<lparr>m_data = [7, 8, 9]\<rparr>" "Float32 5"]
  by (simp add: Size_def)

text \<open>
  C7 as stated fails for the float: on an empty buffer the decoder returns false and
  leaves in \<open>out\<close> the bits of \<open>1.0f\<close> it held, which are not zero.
\<close>

theorem float_underrun_keeps_out:
  "Size \<lparr>m_data = []\<rparr> < 4 \<and>
   Decode_float \<lparr>m_data = []\<rparr> (Float32 0x3F800000) = Some (False, Float32 0x3F800000, \<lparr>m_data = []\<rparr>) \<and>
   Float32 0x3F800000 \<noteq> Float32 0"
  by (simp add: Decode_float_def Size_def)

section \<open>Strings\<close>

lemma Encode_cstr_loop_data:
  "m_data (Encode_cstr_loop cap i c buffer) =
     m_data buffer @ take (cap - i) (takeWhile (\<lambda>x. x \<noteq> 0) c) @ [0]"
proof (induction cap i c buffer rule: Encode_cstr_loop.induct)
  case (1 cap i c buffer)
  show ?case
  proof (cases "i < cap")
    case False
    then show ?thesis by (subst Encode_cstr_loop.simps) (simp add: Push_def)
  next
    case True
    then obtain k where k: "cap - i = Suc k" "cap - (i + 1) = k"
      by (metis Suc_diff_Suc Suc_eq_plus1)
    show ?thesis
    proof (cases "deref c = 0")
      case z: True
      then have "takeWhile (\<lambda>x. x \<noteq> 0) c = []"
        by (cases c) (simp_all add: deref_def)
      with True z show ?thesis
        by (subst Encode_cstr_loop.simps) (simp add: Push_def)
    next
      case nz: False
      then obtain x xs where c: "c = x # xs" "x \<noteq> 0"
        by (cases c) (simp_all add: deref_def)
      have "m_data (Encode_cstr_loop cap (i + 1) (tl c) (Push buffer (deref c))) =
            m_data (Push buffer (deref c)) @
              take (cap - (i + 1)) (takeWhile (\<lambda>x. x \<noteq> 0) (tl c)) @ [0]"
        using "1.IH" [OF True refl nz] .
      with True nz c k show ?thesis
        by (subst Encode_cstr_loop.simps) (simp add: Push_def deref_def Let_def)
    qed
  qed
qed

lemma Encode_cstr_data:
  "m_data (Encode_cstr cap buffer s) =
     m_data buffer @ take (cap - 1) (takeWhile (\<lambda>x. x \<noteq> 0) s) @ [0]"
  by (simp add: Encode_cstr_def Encode_cstr_loop_data)

lemma takeWhile_no_NUL: "(0 :: uint8) \<notin> set s \<Longrightarrow> takeWhile (\<lambda>x. x \<noteq> 0) s = s"
  by (induction s) auto

lemma Decode_string_rev:
  "0 \<notin> set s \<Longrightarrow>
   Decode_string \<lparr>m_data = pre @ 0 # rev s\<rparr> out = Some (True, out @ s, \<lparr>m_data = pre\<rparr>)"
proof (induction s arbitrary: out)
  case Nil
  have "Pop \<lparr>m_data = pre @ [0]\<rparr> = Some (0, \<lparr>m_data = pre\<rparr>)" by (rule Pop_snoc)
  then show ?case by (subst Decode_string.simps) (simp add: Size_def)
next
  case (Cons x xs)
  have "Pop \<lparr>m_data = (pre @ 0 # rev xs) @ [x]\<rparr> = Some (x, \<lparr>m_data = pre @ 0 # rev xs\<rparr>)"
    by (rule Pop_snoc)
  with Cons show ?case by (subst Decode_string.simps) (simp add: Size_def)
qed

lemma Decode_string_Flip_Encode_cstr:
  assumes "0 \<notin> set s"
  shows "Decode_string (Flip (Encode_cstr cap \<lparr>m_data = []\<rparr> s)) out
         = Some (True, out @ take (cap - 1) s, \<lparr>m_data = []\<rparr>)"
proof -
  have nz: "0 \<notin> set (take (cap - 1) s)"
    using assms by (meson in_set_takeD)
  have "Flip (Encode_cstr cap \<lparr>m_data = []\<rparr> s) = \<lparr>m_data = [] @ 0 # rev (take (cap - 1) s)\<rparr>"
    by (simp add: Flip_def Encode_cstr_data takeWhile_no_NUL [OF assms])
  then show ?thesis using Decode_string_rev [OF nz, of "[]" out] by simp
qed

text \<open>
  C6 (as amended). \<open>s\<close> is a C string, so it holds no NUL, and \<open>cap\<close> is
  \<open>STR_MAX_ENCODE_LEN\<close>. Encoding appends the first \<open>cap - 1\<close> characters of \<open>s\<close> and a NUL,
  which is at most \<open>cap\<close> bytes when \<open>cap\<close> is positive. When the bytes of the buffer are
  reversed between encoding and decoding, which is what the spec says \<open>Flip\<close> does on the
  receive path, a string of at most \<open>cap - 1\<close> characters is decoded exactly, and a longer
  one, which takes all \<open>cap\<close> bytes with the NUL as the last, is decoded as its first
  \<open>cap - 1\<close> characters.
\<close>

theorem string_round_trip_after_flip:
  assumes "0 \<notin> set s"
  shows "m_data (Encode_cstr cap b s) = m_data b @ take (cap - 1) s @ [0] \<and>
         (0 < cap \<longrightarrow> Size (Encode_cstr cap b s) \<le> Size b + cap) \<and>
         (length s \<le> cap - 1 \<longrightarrow>
            Decode_string \<lparr>m_data = rev (m_data (Encode_cstr cap \<lparr>m_data = []\<rparr> s))\<rparr> []
              = Some (True, s, \<lparr>m_data = []\<rparr>)) \<and>
         (cap - 1 < length s \<longrightarrow>
            (0 < cap \<longrightarrow> Size (Encode_cstr cap b s) = Size b + cap) \<and>
            last (m_data (Encode_cstr cap b s)) = 0 \<and>
            Decode_string \<lparr>m_data = rev (m_data (Encode_cstr cap \<lparr>m_data = []\<rparr> s))\<rparr> []
              = Some (True, take (cap - 1) s, \<lparr>m_data = []\<rparr>))"
proof -
  have data: "m_data (Encode_cstr cap b s) = m_data b @ take (cap - 1) s @ [0]"
    by (simp add: Encode_cstr_data takeWhile_no_NUL [OF assms])
  have "Flip (Encode_cstr cap \<lparr>m_data = []\<rparr> s)
          = \<lparr>m_data = rev (m_data (Encode_cstr cap \<lparr>m_data = []\<rparr> s))\<rparr>"
    by (simp add: Flip_def)
  then have dec: "Decode_string \<lparr>m_data = rev (m_data (Encode_cstr cap \<lparr>m_data = []\<rparr> s))\<rparr> []
             = Some (True, take (cap - 1) s, \<lparr>m_data = []\<rparr>)"
    using Decode_string_Flip_Encode_cstr [OF assms, of cap "[]"] by simp
  have bound: "0 < cap \<Longrightarrow> Size (Encode_cstr cap b s) \<le> Size b + cap"
    by (simp add: Size_def data)
  have full: "cap - 1 < length s \<Longrightarrow> 0 < cap \<Longrightarrow> Size (Encode_cstr cap b s) = Size b + cap"
    by (simp add: Size_def data)
  have nul: "last (m_data (Encode_cstr cap b s)) = 0"
    by (simp add: data)
  show ?thesis
    using data dec bound full nul by simp
qed

theorem string_round_trip_after_flip_witness:
  "0 \<notin> set [0x61, 0x62 :: uint8] \<and>
   length [0x61, 0x62 :: uint8] \<le> STR_MAX_ENCODE_LEN - 1 \<and>
   m_data (Encode_cstr STR_MAX_ENCODE_LEN \<lparr>m_data = [9]\<rparr> [0x61, 0x62]) = [9, 0x61, 0x62, 0] \<and>
   Decode_string \<lparr>m_data = rev (m_data (Encode_cstr STR_MAX_ENCODE_LEN \<lparr>m_data = []\<rparr> [0x61, 0x62]))\<rparr> []
     = Some (True, [0x61, 0x62], \<lparr>m_data = []\<rparr>) \<and>
   0 \<notin> set [0x61, 0x62, 0x63, 0x64 :: uint8] \<and>
   (3 :: nat) - 1 < length [0x61, 0x62, 0x63, 0x64 :: uint8] \<and>
   Size (Encode_cstr 3 \<lparr>m_data = [9]\<rparr> [0x61, 0x62, 0x63, 0x64]) = 4 \<and>
   Decode_string \<lparr>m_data = rev (m_data (Encode_cstr 3 \<lparr>m_data = []\<rparr> [0x61, 0x62, 0x63, 0x64]))\<rparr> []
     = Some (True, [0x61, 0x62], \<lparr>m_data = []\<rparr>)"
  using string_round_trip_after_flip [of "[0x61, 0x62]" STR_MAX_ENCODE_LEN "\<lparr>m_data = [9]\<rparr>"]
    string_round_trip_after_flip [of "[0x61, 0x62, 0x63, 0x64]" 3 "\<lparr>m_data = [9]\<rparr>"]
  by (simp add: STR_MAX_ENCODE_LEN_def Size_def)

text \<open>
  C6 as stated fails: decoding from the buffer the string was just encoded into pops the
  terminator first and returns the empty string, with the characters left in the buffer.
\<close>

theorem string_round_trip_immediate_fails:
  "Decode_string (Encode_cstr STR_MAX_ENCODE_LEN \<lparr>m_data = []\<rparr> [0x61, 0x62]) []
     = Some (True, [], \<lparr>m_data = [0x61, 0x62]\<rparr>) \<and>
   ([] :: uint8 list) \<noteq> [0x61, 0x62]"
  by (simp add: Encode_cstr_def STR_MAX_ENCODE_LEN_def deref_def Push_def Pop_def Size_def
      Encode_cstr_loop.simps Decode_string.simps)

section \<open>Roles\<close>

text \<open>
  C9. For every object, \<open>IsNetOwner\<close> holds exactly for the roles \<open>None\<close>, \<open>HostOwner\<close> and
  \<open>RemoteOwner\<close>, \<open>IsNetHost\<close> exactly for \<open>HostOwner\<close> and \<open>HostPuppet\<close>, and \<open>HasNetControl\<close>
  exactly when one of the two holds. The five roles are all there are, and the table
  gives the three predicates for each of them.
\<close>

theorem role_predicates_table:
  "(IsNetOwner obj \<longleftrightarrow> m_netRole obj \<in> {None_NetRole, HostOwner, RemoteOwner}) \<and>
   (IsNetHost obj \<longleftrightarrow> m_netRole obj \<in> {HostOwner, HostPuppet}) \<and>
   (HasNetControl obj \<longleftrightarrow> IsNetOwner obj \<or> IsNetHost obj) \<and>
   (UNIV :: NetRole set) = {None_NetRole, RemotePuppet, HostPuppet, RemoteOwner, HostOwner} \<and>
   (IsNetOwner (obj\<lparr>m_netRole := None_NetRole\<rparr>), IsNetHost (obj\<lparr>m_netRole := None_NetRole\<rparr>),
      HasNetControl (obj\<lparr>m_netRole := None_NetRole\<rparr>)) = (True, False, True) \<and>
   (IsNetOwner (obj\<lparr>m_netRole := RemotePuppet\<rparr>), IsNetHost (obj\<lparr>m_netRole := RemotePuppet\<rparr>),
      HasNetControl (obj\<lparr>m_netRole := RemotePuppet\<rparr>)) = (False, False, False) \<and>
   (IsNetOwner (obj\<lparr>m_netRole := HostPuppet\<rparr>), IsNetHost (obj\<lparr>m_netRole := HostPuppet\<rparr>),
      HasNetControl (obj\<lparr>m_netRole := HostPuppet\<rparr>)) = (False, True, True) \<and>
   (IsNetOwner (obj\<lparr>m_netRole := RemoteOwner\<rparr>), IsNetHost (obj\<lparr>m_netRole := RemoteOwner\<rparr>),
      HasNetControl (obj\<lparr>m_netRole := RemoteOwner\<rparr>)) = (True, False, True) \<and>
   (IsNetOwner (obj\<lparr>m_netRole := HostOwner\<rparr>), IsNetHost (obj\<lparr>m_netRole := HostOwner\<rparr>),
      HasNetControl (obj\<lparr>m_netRole := HostOwner\<rparr>)) = (True, True, True)"
proof -
  have "(UNIV :: NetRole set) = {None_NetRole, RemotePuppet, HostPuppet, RemoteOwner, HostOwner}"
  proof (rule set_eqI)
    fix r :: NetRole
    show "r \<in> UNIV \<longleftrightarrow> r \<in> {None_NetRole, RemotePuppet, HostPuppet, RemoteOwner, HostOwner}"
      by (cases r) simp_all
  qed
  then show ?thesis
    by (simp add: IsNetOwner_def IsNetHost_def HasNetControl_def)
qed

section \<open>Calling an RPC\<close>

text \<open>
  The RPC is registered, the network identity that the macro reads, the one of the
  enclosing object \<open>this\<close>, is not zero, the target may not run the call itself (the first
  test of the macro fails) and may not remote it (the second test fails, which is the
  non-host caller of a \<open>Broadcast\<close> call). Then the macro runs its \<open>LOG_ERROR\<close> of the rights
  violation and nothing else: neither the direct call nor \<open>RemoteCallRPC\<close>, the only
  statement that queues a request. In \<open>CallRPC(this, ...)\<close> the identity read is the
  target's.
\<close>

theorem rights_violation_logged:
  assumes "RegisterRPCs classes func TEMP_INFO = (True, info)"
      and "GetNetworkID this \<noteq> 0"
      and "\<not> ((IsNetHost object \<and> callingMode info = Host) \<or>
               (IsNetOwner object \<and> callingMode info = Owner))"
      and "\<not> (IsNetHost object \<or> callingMode info \<noteq> Broadcast)"
  shows "CallRPC this classes object func funcEncode TEMP_INFO = LOG_ERROR (InvalidRights func) \<and>
         CallRPC this classes object func funcEncode TEMP_INFO \<noteq> DirectCall \<and>
         (\<forall>i b. CallRPC this classes object func funcEncode TEMP_INFO \<noteq> RemoteCallRPC i b) \<and>
         CallRPC this classes object func funcEncode TEMP_INFO \<noteq> NoEffect \<and>
         \<not> IsNetHost object \<and> callingMode info = Broadcast"
  using assms by (simp add: CallRPC_def)

theorem rights_violation_logged_witness:
  "RegisterRPCs [ATestEntity_RegisterRPCs] ''MoveTo'' \<lparr>index = 7, callingMode = Unknown, socket = TCP\<rparr>
     = (True, \<lparr>index = 1, callingMode = Broadcast, socket = UDP\<rparr>) \<and>
   GetNetworkID \<lparr>m_netRole = RemotePuppet, m_networkOwnerId = 2, m_networkId = 5,
      bFirstNetUpdate = False, m_UdpRpcQueue = [], m_TcpRpcQueue = [], bIsNetSynced = True\<rparr> \<noteq> 0 \<and>
   \<not> IsNetHost \<lparr>m_netRole = RemotePuppet, m_networkOwnerId = 2, m_networkId = 5,
      bFirstNetUpdate = False, m_UdpRpcQueue = [], m_TcpRpcQueue = [], bIsNetSynced = True\<rparr> \<and>
   CallRPC
     \<lparr>m_netRole = RemotePuppet, m_networkOwnerId = 2, m_networkId = 5,
      bFirstNetUpdate = False, m_UdpRpcQueue = [], m_TcpRpcQueue = [], bIsNetSynced = True\<rparr>
     [ATestEntity_RegisterRPCs]
     \<lparr>m_netRole = RemotePuppet, m_networkOwnerId = 2, m_networkId = 5,
      bFirstNetUpdate = False, m_UdpRpcQueue = [], m_TcpRpcQueue = [], bIsNetSynced = True\<rparr>
     ''MoveTo''
     (\<lambda>TEMP_BUFFER. Encode_float (Encode_float TEMP_BUFFER (Float32 1)) (Float32 2))
     \<lparr>index = 7, callingMode = Unknown, socket = TCP\<rparr>
   = LOG_ERROR (InvalidRights ''MoveTo'')"
proof -
  let ?obj = "\<lparr>m_netRole = RemotePuppet, m_networkOwnerId = 2, m_networkId = 5,
      bFirstNetUpdate = False, m_UdpRpcQueue = [], m_TcpRpcQueue = [], bIsNetSynced = True\<rparr>"
  let ?info = "\<lparr>index = 1, callingMode = Broadcast, socket = UDP\<rparr>"
  have reg: "RegisterRPCs [ATestEntity_RegisterRPCs] ''MoveTo''
               \<lparr>index = 7, callingMode = Unknown, socket = TCP\<rparr> = (True, ?info)"
    by (simp add: ATestEntity_RegisterRPCs_def NetSerializableBase_RegisterRPCs_def)
  have nz: "GetNetworkID ?obj \<noteq> 0"
    by (simp add: GetNetworkID_def)
  have direct: "\<not> ((IsNetHost ?obj \<and> callingMode ?info = Host) \<or>
                    (IsNetOwner ?obj \<and> callingMode ?info = Owner))"
    by (simp add: IsNetHost_def IsNetOwner_def)
  have remote: "\<not> (IsNetHost ?obj \<or> callingMode ?info \<noteq> Broadcast)"
    by (simp add: IsNetHost_def)
  show ?thesis
    using reg nz rights_violation_logged [OF reg nz direct remote] by simp
qed

text \<open>
  When the identity that the macro reads is zero, a registered call runs none of the
  macro's statements.
\<close>

lemma CallRPC_zero_identity:
  "GetNetworkID this = 0 \<Longrightarrow> RegisterRPCs classes func TEMP_INFO = (True, info) \<Longrightarrow>
   CallRPC this classes object func funcEncode TEMP_INFO = NoEffect"
  by (simp add: CallRPC_def)

text \<open>
  C5 fails on the code. A test entity whose own network identity is still zero calls the
  \<open>Broadcast\<close> RPC \<open>MoveTo\<close> on another test entity through \<open>CallRPC_TwoParam(target, MoveTo,
  ...)\<close>. The target has the network identity 5 and the role \<open>RemotePuppet\<close>, so it is not
  the host: it may neither run the call nor remote it. The macro tests the identity of
  the caller, not of the target, and has no \<open>else\<close>: it logs no error and does nothing, so
  the call is dropped silently.
\<close>

theorem cross_object_rights_violation_dropped:
  "RegisterRPCs [ATestEntity_RegisterRPCs] ''MoveTo'' \<lparr>index = 7, callingMode = Unknown, socket = TCP\<rparr>
     = (True, \<lparr>index = 1, callingMode = Broadcast, socket = UDP\<rparr>) \<and>
   GetNetworkID \<lparr>m_netRole = RemotePuppet, m_networkOwnerId = 2, m_networkId = 5,
      bFirstNetUpdate = False, m_UdpRpcQueue = [], m_TcpRpcQueue = [], bIsNetSynced = True\<rparr> \<noteq> 0 \<and>
   \<not> IsNetHost \<lparr>m_netRole = RemotePuppet, m_networkOwnerId = 2, m_networkId = 5,
      bFirstNetUpdate = False, m_UdpRpcQueue = [], m_TcpRpcQueue = [], bIsNetSynced = True\<rparr> \<and>
   CallRPC
     \<lparr>m_netRole = None_NetRole, m_networkOwnerId = 0, m_networkId = 0,
      bFirstNetUpdate = True, m_UdpRpcQueue = [], m_TcpRpcQueue = [], bIsNetSynced = True\<rparr>
     [ATestEntity_RegisterRPCs]
     \<lparr>m_netRole = RemotePuppet, m_networkOwnerId = 2, m_networkId = 5,
      bFirstNetUpdate = False, m_UdpRpcQueue = [], m_TcpRpcQueue = [], bIsNetSynced = True\<rparr>
     ''MoveTo''
     (\<lambda>TEMP_BUFFER. Encode_float (Encode_float TEMP_BUFFER (Float32 1)) (Float32 2))
     \<lparr>index = 7, callingMode = Unknown, socket = TCP\<rparr>
   = NoEffect \<and>
   NoEffect \<noteq> LOG_ERROR (InvalidRights ''MoveTo'')"
  by (simp add: CallRPC_def ATestEntity_RegisterRPCs_def NetSerializableBase_RegisterRPCs_def
      GetNetworkID_def IsNetHost_def)

text \<open>
  C3 fails on the code. A test entity that is not yet registered on the network (identity
  zero, role \<open>None\<close>) calls its registered RPC \<open>ResetPosition\<close> through \<open>CallRPC(this,
  ResetPosition)\<close>: the macro does not call the function; it does nothing at all.
\<close>

theorem zero_identity_call_dropped:
  "CallRPC
     \<lparr>m_netRole = None_NetRole, m_networkOwnerId = 0, m_networkId = 0, bFirstNetUpdate = True,
      m_UdpRpcQueue = [], m_TcpRpcQueue = [], bIsNetSynced = True\<rparr>
     [ATestEntity_RegisterRPCs]
     \<lparr>m_netRole = None_NetRole, m_networkOwnerId = 0, m_networkId = 0, bFirstNetUpdate = True,
      m_UdpRpcQueue = [], m_TcpRpcQueue = [], bIsNetSynced = True\<rparr>
     ''ResetPosition'' (\<lambda>TEMP_BUFFER. TEMP_BUFFER)
     \<lparr>index = 0, callingMode = Unknown, socket = TCP\<rparr>
   = NoEffect \<and> NoEffect \<noteq> DirectCall"
  by (simp add: CallRPC_def ATestEntity_RegisterRPCs_def NetSerializableBase_RegisterRPCs_def
      GetNetworkID_def)

section \<open>Executing an RPC\<close>

lemma unat_pred: "(i :: uint16) \<noteq> 0 \<Longrightarrow> unat (i - 1) = unat i - 1"
  by (simp add: unat_minus_one)

lemma exec_entries_nth:
  "unat i < length cls \<Longrightarrow> cls ! unat i = RPC_EXEC func types \<Longrightarrow>
   exec_entries cls i b =
     (case decode_params types b of
        None \<Rightarrow> None
      | Some (ok, args, b') \<Rightarrow> Some (True, if ok then Some (Invocation func args) else None, b'))"
proof (induction cls arbitrary: i)
  case Nil
  then show ?case by simp
next
  case (Cons e cls)
  obtain f ts where e: "e = RPC_EXEC f ts" by (cases e)
  show ?case
  proof (cases "i = 0")
    case True
    with Cons.prems e show ?thesis by simp
  next
    case False
    then have u: "unat (i - 1) = unat i - 1" by (rule unat_pred)
    from False have pos: "0 < unat i" by (simp add: unat_gt_0)
    with Cons.prems u have "unat (i - 1) < length cls" "cls ! unat (i - 1) = RPC_EXEC func types"
      by (auto simp add: nth_Cons')
    from Cons.IH [OF this] False e show ?thesis by simp
  qed
qed

lemma exec_entries_beyond:
  "length cls \<le> unat i \<Longrightarrow> exec_entries cls i b = Some (False, None, b)"
proof (induction cls arbitrary: i)
  case Nil
  then show ?case by simp
next
  case (Cons e cls)
  obtain f ts where e: "e = RPC_EXEC f ts" by (cases e)
  from Cons.prems have nz: "i \<noteq> 0" by auto
  then have "unat (i - 1) = unat i - 1" by (rule unat_pred)
  with Cons.prems have "length cls \<le> unat (i - 1)" by simp
  from Cons.IH [OF this] nz e show ?case by simp
qed

text \<open>What \<open>ExecuteRPC\<close> does, in terms of the entry the chain reaches.\<close>

lemma ExecuteRPC_dispatched:
  "ExecuteRPC hier rid b =
     (case dispatched_entry hier rid of
        None \<Rightarrow> Some (False, rid, None, b)
      | Some (RPC_EXEC func types) \<Rightarrow>
          (case decode_params types b of
             None \<Rightarrow> None
           | Some (ok, args, b') \<Rightarrow>
               Some (True, rid, if ok then Some (Invocation func args) else None, b')))"
proof (induction hier)
  case Nil
  then show ?case by (simp add: NetSerializableBase_ExecuteRPC_def)
next
  case (Cons cls supers)
  show ?case
  proof (cases "dispatched_entry supers rid")
    case (Some e)
    obtain f ts where e: "e = RPC_EXEC f ts" by (cases e)
    with Some Cons.IH show ?thesis
      by (auto split: option.splits)
  next
    case None
    with Cons.IH have sup: "ExecuteRPC supers rid b = Some (False, rid, None, b)" by simp
    show ?thesis
    proof (cases "unat rid < length cls")
      case True
      obtain f ts where e: "cls ! unat rid = RPC_EXEC f ts" by (cases "cls ! unat rid")
      from exec_entries_nth [OF True e] None True e sup show ?thesis
        by (auto split: option.splits)
    next
      case False
      then have "exec_entries cls rid b = Some (False, None, b)"
        by (simp add: exec_entries_beyond)
      with None False sup show ?thesis by simp
    qed
  qed
qed

text \<open>
  An index that is at least the number of entries of all bodies of the chain reaches no
  entry, and \<open>ExecuteRPC\<close> returns false.
\<close>

lemma dispatched_entry_beyond:
  "sum_list (map length hier) \<le> unat rid \<Longrightarrow> dispatched_entry hier rid = None"
  by (induction hier) auto

lemma ExecuteRPC_beyond_all:
  "sum_list (map length hier) \<le> unat rid \<Longrightarrow>
   ExecuteRPC hier rid b = Some (False, rid, None, b)"
  by (simp add: ExecuteRPC_dispatched dispatched_entry_beyond)

text \<open>
  C4. The index reaches an entry that declares one or more parameters, and decoding them
  in declared order ends with a decoder that returns false. Then \<open>ExecuteRPC\<close> returns
  true and the function is not invoked.
\<close>

theorem failed_decode_reports_handled:
  assumes "dispatched_entry hier rid = Some (RPC_EXEC func types)"
      and "types \<noteq> []"
      and "decode_params types b = Some (False, args, b')"
  shows "ExecuteRPC hier rid b = Some (True, rid, None, b')"
  using assms by (simp add: ExecuteRPC_dispatched)

theorem failed_decode_reports_handled_witness:
  "dispatched_entry [ATestEntity_ExecuteRPC (Float32 0) (Float32 0)] 1
     = Some (ATestEntity_ExecuteRPC (Float32 0) (Float32 0) ! 1) \<and>
   decode_params
     [\<lambda>TEMP_BUFFER. Decode_float TEMP_BUFFER (Float32 0),
      \<lambda>TEMP_BUFFER. Decode_float TEMP_BUFFER (Float32 0)] \<lparr>m_data = [1, 2, 3, 4]\<rparr>
     = Some (False, [Float32 0x01020304], \<lparr>m_data = []\<rparr>) \<and>
   ExecuteRPC [ATestEntity_ExecuteRPC (Float32 0) (Float32 0)] 1 \<lparr>m_data = [1, 2, 3, 4]\<rparr>
     = Some (True, 1, None, \<lparr>m_data = []\<rparr>)"
proof -
  let ?types = "[\<lambda>TEMP_BUFFER. Decode_float TEMP_BUFFER (Float32 0),
                 \<lambda>TEMP_BUFFER. Decode_float TEMP_BUFFER (Float32 0)]"
  have entry: "dispatched_entry [ATestEntity_ExecuteRPC (Float32 0) (Float32 0)] 1
                 = Some (RPC_EXEC ''MoveTo'' ?types)"
    by (simp add: ATestEntity_ExecuteRPC_def)
  have some: "?types \<noteq> []" by simp
  have fails: "decode_params ?types \<lparr>m_data = [1, 2, 3, 4]\<rparr>
                 = Some (False, [Float32 0x01020304], \<lparr>m_data = []\<rparr>)"
    by (simp add: Decode_float_def Decode_uint32_def Size_def Pop_def shl_int_def)
  show ?thesis
    using entry fails failed_decode_reports_handled [OF entry some fails]
    by (simp add: ATestEntity_ExecuteRPC_def)
qed

text \<open>
  C2 fails on the code. A parent body with the one entry \<open>P0\<close> and a leaf body with the
  entries \<open>L0\<close> and \<open>L1\<close>: \<open>N = 1\<close>, \<open>M = 2\<close>. \<open>RegisterRPCs\<close> gives \<open>L0\<close> the index 1, but
  \<open>ExecuteRPC\<close> at index 1 invokes \<open>L1\<close>, and at index 2, which is \<open>N + 1\<close>, it returns false:
  the parent decrements its own copy of the index, and the leaf tests its entries
  against the index it was called with.
\<close>

theorem inherited_index_not_subtracted:
  "ExecuteRPC [[RPC_EXEC ''L0'' [], RPC_EXEC ''L1'' []], [RPC_EXEC ''P0'' []]] 1 \<lparr>m_data = []\<rparr>
     = Some (True, 1, Some (Invocation ''L1'' ([] :: unit list)), \<lparr>m_data = []\<rparr>) \<and>
   ExecuteRPC [[RPC_EXEC ''L0'' [], RPC_EXEC ''L1'' []], [RPC_EXEC ''P0'' []]] 2 \<lparr>m_data = []\<rparr>
     = Some (False, 2, (None :: unit invocation option), \<lparr>m_data = []\<rparr>) \<and>
   RegisterRPCs [[RPC_INDEX TCP Host ''L0'', RPC_INDEX TCP Host ''L1''], [RPC_INDEX TCP Host ''P0'']]
     ''L0'' \<lparr>index = 7, callingMode = Unknown, socket = TCP\<rparr>
     = (True, \<lparr>index = 1, callingMode = Host, socket = TCP\<rparr>)"
  by (simp add: NetSerializableBase_ExecuteRPC_def NetSerializableBase_RegisterRPCs_def)

section \<open>The host session\<close>

lemma GetClient_unknown:
  "m_clientLookup s identity = None \<Longrightarrow>
   GetClient s identity = (None, s\<lparr>m_clientLookup := (m_clientLookup s)(identity \<mapsto> None)\<rparr>)"
  by (simp add: GetClient_def map_subscript_def)

text \<open>
  C10. For an identity that is not a key of the lookup table, \<open>GetClient\<close> returns
  \<open>nullptr\<close> and leaves the identity in the table with a null pointer: the keys grow by
  this identity, by one when the table is finite, and the list of clients is as it was.
  \<open>ForwardToClient\<close> on a packet from such a source on the UDP socket leaves this
  session and sends nothing.
\<close>

theorem GetClient_inserts_null_entry:
  assumes "identity \<notin> dom (m_clientLookup s)"
  shows "fst (GetClient s identity) = None \<and>
         m_clientLookup (snd (GetClient s identity)) = (m_clientLookup s)(identity \<mapsto> None) \<and>
         dom (m_clientLookup (snd (GetClient s identity))) = insert identity (dom (m_clientLookup s)) \<and>
         (finite (dom (m_clientLookup s)) \<longrightarrow>
            card (dom (m_clientLookup (snd (GetClient s identity))))
              = Suc (card (dom (m_clientLookup s)))) \<and>
         m_clients (snd (GetClient s identity)) = m_clients s \<and>
         (packet_source packet = identity \<and> GetSocketType sock = UDP \<longrightarrow>
            ForwardToClient env s packet sock
              = Some (s\<lparr>m_clientLookup := (m_clientLookup s)(identity \<mapsto> None)\<rparr>, packet, sock))"
proof -
  from assms have none: "m_clientLookup s identity = None" by (simp add: domIff)
  note g = GetClient_unknown [OF none]
  have "finite (dom (m_clientLookup s)) \<Longrightarrow>
        card (insert identity (dom (m_clientLookup s))) = Suc (card (dom (m_clientLookup s)))"
    using assms by simp
  moreover have "packet_source packet = identity \<Longrightarrow> GetSocketType sock = UDP \<Longrightarrow>
      ForwardToClient env s packet sock
        = Some (s\<lparr>m_clientLookup := (m_clientLookup s)(identity \<mapsto> None)\<rparr>, packet, sock)"
    by (simp add: ForwardToClient_def g)
  ultimately show ?thesis by (simp add: g)
qed

theorem GetClient_inserts_null_entry_witness:
  "\<lparr>ip = 1, port = 2\<rparr> \<notin> dom (Map.empty :: NetIdentity \<rightharpoonup> NetClient option) \<and>
   finite (dom (Map.empty :: NetIdentity \<rightharpoonup> NetClient option)) \<and>
   GetClient \<lparr>m_clients = [], m_clientLookup = Map.empty, maxPlayerCount = 8,
               bIsHost = True, bIsConnected = True\<rparr> \<lparr>ip = 1, port = 2\<rparr>
     = (None, \<lparr>m_clients = [], m_clientLookup = [\<lparr>ip = 1, port = 2\<rparr> \<mapsto> None], maxPlayerCount = 8,
               bIsHost = True, bIsConnected = True\<rparr>) \<and>
   card (dom (m_clientLookup (snd (GetClient \<lparr>m_clients = [], m_clientLookup = Map.empty,
      maxPlayerCount = 8, bIsHost = True, bIsConnected = True\<rparr> \<lparr>ip = 1, port = 2\<rparr>)))) = 1 \<and>
   ForwardToClient env0
     \<lparr>m_clients = [], m_clientLookup = Map.empty, maxPlayerCount = 8,
      bIsHost = True, bIsConnected = True\<rparr>
     \<lparr>packet_source = \<lparr>ip = 1, port = 2\<rparr>, packet_buffer = \<lparr>m_data = [3]\<rparr>\<rparr>
     \<lparr>m_socketType = UDP, m_sent = []\<rparr>
     = Some (\<lparr>m_clients = [], m_clientLookup = [\<lparr>ip = 1, port = 2\<rparr> \<mapsto> None], maxPlayerCount = 8,
              bIsHost = True, bIsConnected = True\<rparr>,
             \<lparr>packet_source = \<lparr>ip = 1, port = 2\<rparr>, packet_buffer = \<lparr>m_data = [3]\<rparr>\<rparr>,
             \<lparr>m_socketType = UDP, m_sent = []\<rparr>)"
  using GetClient_inserts_null_entry [of "\<lparr>ip = 1, port = 2\<rparr>"
      "\<lparr>m_clients = [], m_clientLookup = Map.empty, maxPlayerCount = 8,
        bIsHost = True, bIsConnected = True\<rparr>"
      "\<lparr>packet_source = \<lparr>ip = 1, port = 2\<rparr>, packet_buffer = \<lparr>m_data = [3]\<rparr>\<rparr>"
      "\<lparr>m_socketType = UDP, m_sent = []\<rparr>" env0]
  by (simp add: GetClient_def map_subscript_def GetSocketType_def)

text \<open>
  A \<open>Connect\<close> request from an unknown source on the TCP socket, with a header that decodes
  and versions that match, is accepted and the client is tracked, whatever follows the
  header in the packet: the payload, which holds the password, is not decoded.
\<close>

lemma ForwardToClient_Connect:
  assumes "m_clientLookup s (packet_source packet) = None"
      and "GetSocketType sock = TCP"
      and "Decode_Version env (packet_buffer packet) = Some (True, engine_version env, b1)"
      and "Decode_Version env b1 = Some (True, game_version env, b2)"
      and "Decode_uint16 b2 = Some (True, request_value env Connect, payload)"
      and "request_value env Connect \<noteq> request_value env Ping"
  shows "ForwardToClient env s packet sock =
           Some (s\<lparr>m_clients := m_clients s @ [\<lparr>m_identity = packet_source packet\<rparr>],
                   m_clientLookup := (m_clientLookup s)
                      (packet_source packet \<mapsto> Some \<lparr>m_identity = packet_source packet\<rparr>)\<rparr>,
                 packet\<lparr>packet_buffer := payload\<rparr>,
                 SendTo sock (Data (Encode_uint16 \<lparr>m_data = []\<rparr> (response_value env Accepted)))
                   (Size (Encode_uint16 \<lparr>m_data = []\<rparr> (response_value env Accepted)))
                   (packet_source packet))"
  using assms
  by (simp add: ForwardToClient_def GetClient_def map_subscript_def VerifyHandshake_def
      respond_def Let_def)

lemma connect_request_data:
  "m_data connect_request = [1, 0, 1, 0, 1, 0, 0x41, 0x6C, 0x69, 0x63, 0x65, 0, 0]"
  by (simp add: connect_request_def Encode_uint16_def Encode_string_def Encode_cstr_data
      bytes_of_def Push_def shr_int_def STR_MAX_ENCODE_LEN_def)

text \<open>
  C8 fails on the code. The host's layer holds the password "secret"; the request of the
  spec's scenario, with the empty password, arrives flipped from an unknown source on the
  TCP socket. The session answers with the code of \<open>Accepted\<close> and tracks the client in the
  list and in the lookup table. The layer's own \<open>OnDecodeHandshake\<close>, which the session does
  not call, returns \<open>BadAuthentication\<close> on the payload the session left.
\<close>

theorem connect_accepted_without_password_check:
  "ForwardToClient env0
     \<lparr>m_clients = [], m_clientLookup = Map.empty, maxPlayerCount = 8,
      bIsHost = True, bIsConnected = True\<rparr>
     \<lparr>packet_source = \<lparr>ip = 1, port = 2\<rparr>, packet_buffer = Flip connect_request\<rparr>
     \<lparr>m_socketType = TCP, m_sent = []\<rparr>
   = Some (\<lparr>m_clients = [\<lparr>m_identity = \<lparr>ip = 1, port = 2\<rparr>\<rparr>],
            m_clientLookup = [\<lparr>ip = 1, port = 2\<rparr> \<mapsto> Some \<lparr>m_identity = \<lparr>ip = 1, port = 2\<rparr>\<rparr>],
            maxPlayerCount = 8, bIsHost = True, bIsConnected = True\<rparr>,
           \<lparr>packet_source = \<lparr>ip = 1, port = 2\<rparr>,
            packet_buffer = \<lparr>m_data = [0, 0, 0x65, 0x63, 0x69, 0x6C, 0x41]\<rparr>\<rparr>,
           \<lparr>m_socketType = TCP, m_sent = [([4, 0], \<lparr>ip = 1, port = 2\<rparr>)]\<rparr>) \<and>
   OnDecodeHandshake (SetPassword \<lparr>m_password = []\<rparr> (bytes_of ''secret'')) \<lparr>ip = 1, port = 2\<rparr>
     \<lparr>m_data = [0, 0, 0x65, 0x63, 0x69, 0x6C, 0x41]\<rparr>
   = Some (BadAuthentication, None, \<lparr>m_data = []\<rparr>)"
proof (rule conjI)
  show "ForwardToClient env0
     \<lparr>m_clients = [], m_clientLookup = Map.empty, maxPlayerCount = 8,
      bIsHost = True, bIsConnected = True\<rparr>
     \<lparr>packet_source = \<lparr>ip = 1, port = 2\<rparr>, packet_buffer = Flip connect_request\<rparr>
     \<lparr>m_socketType = TCP, m_sent = []\<rparr>
   = Some (\<lparr>m_clients = [\<lparr>m_identity = \<lparr>ip = 1, port = 2\<rparr>\<rparr>],
            m_clientLookup = [\<lparr>ip = 1, port = 2\<rparr> \<mapsto> Some \<lparr>m_identity = \<lparr>ip = 1, port = 2\<rparr>\<rparr>],
            maxPlayerCount = 8, bIsHost = True, bIsConnected = True\<rparr>,
           \<lparr>packet_source = \<lparr>ip = 1, port = 2\<rparr>,
            packet_buffer = \<lparr>m_data = [0, 0, 0x65, 0x63, 0x69, 0x6C, 0x41]\<rparr>\<rparr>,
           \<lparr>m_socketType = TCP, m_sent = [([4, 0], \<lparr>ip = 1, port = 2\<rparr>)]\<rparr>)"
    by (simp add: ForwardToClient_def GetClient_def map_subscript_def VerifyHandshake_def
        respond_def Let_def Size_def Encode_uint16_def Push_def env0_def Flip_def
        connect_request_data Decode_uint16_def Pop_def shl_int_def shr_int_def
        GetSocketType_def SendTo_def Data_def)
  show "OnDecodeHandshake (SetPassword \<lparr>m_password = []\<rparr> (bytes_of ''secret'')) \<lparr>ip = 1, port = 2\<rparr>
     \<lparr>m_data = [0, 0, 0x65, 0x63, 0x69, 0x6C, 0x41]\<rparr>
   = Some (BadAuthentication, None, \<lparr>m_data = []\<rparr>)"
    by (simp add: OnDecodeHandshake_def SetPassword_def bytes_of_def Decode_string.simps
        Size_def Pop_def)
qed

end
